theory Spec2Isabelle
  imports Complex_Main "HOL-Library.Log_Nat" "HOL-Library.Char_ord" "HOL-Library.List_Lexorder"
    "HOL-Library.Monad_Syntax"
begin

section \<open>The Aave wallet credit scorer (\<^verbatim>\<open>src/scorer.py\<close>, class \<^verbatim>\<open>CreditScorer\<close>)\<close>

text \<open>
  The scorer runs three stages over a batch of transaction records loaded from JSON:
  \<^verbatim>\<open>load_and_parse_data\<close> turns every raw record into a normalised transaction,
  \<^verbatim>\<open>engineer_features\<close> aggregates the transactions of each wallet into a feature row, and
  \<^verbatim>\<open>calculate_scores\<close> combines the features into a raw score, rescales the population with
  a min-max scaler onto the range 0 to 1000 and casts the result to integers.

  Each stage is embedded below as a function that follows the source line by line. What the
  source takes from libraries (the decimal constructor on text, the conversion of a Unix
  time, the floating-point unit) is collected in a record of parameters \<open>lib\<close>, so that the
  general theorems hold for every library behaviour and the evaluations fix one.
\<close>

subsection \<open>JSON values and the Python operations on them\<close>

text \<open>
  What \<^verbatim>\<open>json.load\<close> returns. A JSON number is kept as the number it denotes (an integer
  and a float with the same value behave alike in every place below). Python's \<^verbatim>\<open>None\<close> is
  \<open>JNull\<close>. An object is the list of its members in file order.
\<close>

datatype json =
    JNull
  | JBool bool
  | JNum real
  | JStr string
  | JArr "json list"
  | JObj "(string \<times> json) list"

text \<open>
  \<^verbatim>\<open>d.get(k)\<close> and \<^verbatim>\<open>d.get(k, default)\<close> on a dictionary built by \<^verbatim>\<open>json.load\<close>: when a
  key occurs twice in the file the later member wins; an absent key gives \<^verbatim>\<open>None\<close>, or the
  default.
\<close>

definition dict_get_default :: "(string \<times> json) list \<Rightarrow> string \<Rightarrow> json \<Rightarrow> json" where
  "dict_get_default d k dflt = (case map_of (rev d) k of None \<Rightarrow> dflt | Some v \<Rightarrow> v)"

definition dict_get :: "(string \<times> json) list \<Rightarrow> string \<Rightarrow> json" where
  "dict_get d k = dict_get_default d k JNull"

text \<open>\<^verbatim>\<open>str.lower()\<close>, on the ASCII letters (strings here are byte strings).\<close>

definition lower_char :: "char \<Rightarrow> char" where
  "lower_char c =
     (if CHR ''A'' \<le> c \<and> c \<le> CHR ''Z'' then char_of (of_char c + (32::nat)) else c)"

definition lower :: "string \<Rightarrow> string" where
  "lower s = map lower_char s"

datatype error =
    AttributeError       \<comment> \<open>\<^verbatim>\<open>.get\<close> or \<^verbatim>\<open>.lower\<close> on a value that has no such method\<close>
  | DatetimeError        \<comment> \<open>\<^verbatim>\<open>pd.to_datetime\<close> rejects its argument\<close>
  | KeyError             \<comment> \<open>grouping a frame that has no column \<^verbatim>\<open>userAddress\<close>\<close>
  | MissingTimestamps    \<comment> \<open>a wallet none of whose transactions carries a time\<close>
  | EmptyPopulation      \<comment> \<open>the scaler is fitted on zero rows (\<^verbatim>\<open>ValueError\<close>)\<close>
  | NonFiniteScore       \<comment> \<open>a raw score that is infinite or not a number\<close>

subsection \<open>Floating point\<close>

text \<open>
  A finite binary64 value is the real number it denotes. \<open>fl64\<close> rounds a real to the
  nearest binary64 value, ties to the even significand (the IEEE 754 default): the
  significand has 53 bits. The exponent range is not bounded here, so overflow to infinity
  and the subnormal numbers are left out; no number in the range of a wallet score comes
  near either.
\<close>

definition expo :: "real \<Rightarrow> int" where
  \<comment> \<open>for \<open>x \<noteq> 0\<close>, the \<open>e\<close> with \<open>2\<^sup>e \<le> \<bar>x\<bar> < 2\<^sup>e\<^sup>+\<^sup>1\<close>\<close>
  "expo x =
     (let a = \<bar>x\<bar> in
      if 1 \<le> a then bitlen \<lfloor>a\<rfloor> - 1
      else (let k = bitlen \<lfloor>1 / a\<rfloor> - 1 in if a * 2 powi k = 1 then - k else - k - 1))"

definition round_half_even :: "real \<Rightarrow> int" where
  "round_half_even y =
     (let f = \<lfloor>y\<rfloor>; d = y - of_int f in
      if d < 1 / 2 then f else if 1 / 2 < d then f + 1 else if even f then f else f + 1)"

definition fl64 :: "real \<Rightarrow> real" where
  "fl64 x =
     (if x = 0 then 0
      else (let e = expo x - 52 in
            sgn x * of_int (round_half_even (\<bar>x\<bar> * 2 powi (- e))) * 2 powi e))"

text \<open>
  The result of a float division, which never raises in numpy: a zero divisor gives an
  infinity or, for \<open>0 / 0\<close>, not-a-number.
\<close>

datatype fval = Fin real | PosInf | NegInf | NaN

subsection \<open>Library parameters\<close>

type_synonym instant = int  \<comment> \<open>a pandas \<^verbatim>\<open>Timestamp\<close>: nanoseconds since the Unix epoch\<close>

text \<open>
  \<^item> \<open>decimal_of_str\<close>: \<^verbatim>\<open>Decimal(s)\<close> for a string \<open>s\<close>; \<open>None\<close> when the constructor
    raises. The special values (\<^verbatim>\<open>Infinity\<close>, \<^verbatim>\<open>NaN\<close>) are outside the model.
  \<^item> \<open>decimal_of_seq\<close>: \<^verbatim>\<open>Decimal(xs)\<close> for a list \<open>xs\<close>.
  \<^item> \<open>to_datetime\<close>: \<^verbatim>\<open>pd.to_datetime(v, unit='s')\<close> for a value \<open>v\<close> other than
    \<^verbatim>\<open>None\<close>; \<open>None\<close> when it raises, \<open>Some None\<close> for \<^verbatim>\<open>NaT\<close>.
  \<^item> \<open>rnd\<close>: the rounding applied to the exact result of every floating-point operation
    (\<open>fl64\<close> on the machine, the identity in exact arithmetic).
  \<^item> \<open>log1p\<close>: \<^verbatim>\<open>np.log1p\<close> on arguments above \<open>-1\<close>.
  \<^item> \<open>group_sum\<close>: the float that the \<^verbatim>\<open>sum\<close> aggregation of pandas returns for the
    values of a non-empty group (pandas adds them with compensated summation).
\<close>

record lib =
  decimal_of_str :: "string \<Rightarrow> real option"
  decimal_of_seq :: "json list \<Rightarrow> real option"
  to_datetime :: "json \<Rightarrow> instant option option"
  rnd :: "real \<Rightarrow> real"
  log1p :: "real \<Rightarrow> real"
  group_sum :: "real list \<Rightarrow> real"

text \<open>
  \<^verbatim>\<open>Decimal(v)\<close>: exact on numbers and booleans, a \<^verbatim>\<open>TypeError\<close> on \<^verbatim>\<open>None\<close> and on a
  dictionary.
\<close>

definition Decimal :: "lib \<Rightarrow> json \<Rightarrow> real option" where
  "Decimal L v =
     (case v of
        JNull \<Rightarrow> None
      | JBool b \<Rightarrow> Some (if b then 1 else 0)
      | JNum x \<Rightarrow> Some x
      | JStr s \<Rightarrow> decimal_of_str L s
      | JArr xs \<Rightarrow> decimal_of_seq L xs
      | JObj d \<Rightarrow> None)"

text \<open>\<^verbatim>\<open>pd.to_datetime(v, unit='s')\<close>: \<^verbatim>\<open>None\<close> is passed through as a missing time.\<close>

definition py_to_datetime :: "lib \<Rightarrow> json \<Rightarrow> instant option option" where
  "py_to_datetime L v = (case v of JNull \<Rightarrow> Some None | _ \<Rightarrow> to_datetime L v)"

definition float_div :: "lib \<Rightarrow> real \<Rightarrow> real \<Rightarrow> fval" where
  "float_div L n d =
     (if d = 0 then (if 0 < n then PosInf else if n < 0 then NegInf else NaN)
      else Fin (rnd L (n / d)))"

subsection \<open>Stage 1: \<^verbatim>\<open>load_and_parse_data\<close>\<close>

text \<open>
  A raw record is a JSON object. Its wallet address is text when it is present (the model
  fixes this by the type); its other members are arbitrary JSON.
\<close>

record raw_record =
  userWallet :: "string option"
  members :: "(string \<times> json) list"

record tx =
  userAddress :: "string option"
  timestamp :: "instant option"
  action :: string
  amountUSD :: real

text \<open>
  The inner \<^verbatim>\<open>try\<close> block (lines 36 to 41). Any exception in it is caught by the bare
  \<^verbatim>\<open>except\<close>, which sets the amount to \<open>0.0\<close>. \<open>usd_value\<close> is the body, \<open>None\<close> when it
  raises. The product of the two decimals is taken exactly (the rounding of the decimal
  context to 28 digits is not modelled); \<^verbatim>\<open>float\<close> rounds it.
\<close>

definition price_arg :: "lib \<Rightarrow> json \<Rightarrow> real option" where
  "price_arg L price_str =
     (case price_str of
        JObj d \<Rightarrow> (case map_of (rev d) ''$numberDecimal'' of None \<Rightarrow> None | Some v \<Rightarrow> Decimal L v)
      | _ \<Rightarrow> Decimal L price_str)"

definition usd_value :: "lib \<Rightarrow> json \<Rightarrow> json \<Rightarrow> real option" where
  "usd_value L amount_str price_str =
     (case (case amount_str of JNull \<Rightarrow> Some 0 | _ \<Rightarrow> Decimal L amount_str) of
        None \<Rightarrow> None
      | Some amount \<Rightarrow>
          (case price_arg L price_str of
             None \<Rightarrow> None
           | Some price \<Rightarrow> Some (rnd L (amount * price))))"

definition amount_usd :: "lib \<Rightarrow> json \<Rightarrow> json \<Rightarrow> real" where
  "amount_usd L amount_str price_str =
     (case usd_value L amount_str price_str of None \<Rightarrow> 0 | Some v \<Rightarrow> v)"

text \<open>
  One pass of the loop body (lines 32 to 48). Outside the inner \<^verbatim>\<open>try\<close>, three steps can
  raise: \<^verbatim>\<open>action_data.get\<close> when \<^verbatim>\<open>actionData\<close> is present and not an object,
  \<^verbatim>\<open>pd.to_datetime\<close>, and \<^verbatim>\<open>.lower()\<close> when \<^verbatim>\<open>action\<close> is present and not a string. The
  dictionary literal is evaluated in the order written.
\<close>

definition action_data_of :: "raw_record \<Rightarrow> (string \<times> json) list option" where
  "action_data_of r =
     (case dict_get_default (members r) ''actionData'' (JObj []) of
        JObj action_data \<Rightarrow> Some action_data
      | _ \<Rightarrow> None)"

definition action_of :: "raw_record \<Rightarrow> string option" where
  "action_of r =
     (case dict_get_default (members r) ''action'' (JStr ''unknown'') of
        JStr a \<Rightarrow> Some (lower a)
      | _ \<Rightarrow> None)"

definition parse_record :: "lib \<Rightarrow> raw_record \<Rightarrow> error + tx" where
  "parse_record L r =
     (case action_data_of r of
        None \<Rightarrow> Inl AttributeError
      | Some action_data \<Rightarrow>
          (let amount_str = dict_get action_data ''amount'';
               price_str = dict_get action_data ''assetPriceUSD'';
               usd = amount_usd L amount_str price_str
           in case py_to_datetime L (dict_get (members r) ''timestamp'') of
                None \<Rightarrow> Inl DatetimeError
              | Some t \<Rightarrow>
                  (case action_of r of
                     None \<Rightarrow> Inl AttributeError
                   | Some a \<Rightarrow>
                       Inr \<lparr>userAddress = userWallet r, timestamp = t,
                            action = a, amountUSD = usd\<rparr>)))"

text \<open>
  The loop (lines 30 to 50). The first exception leaves the loop; the outer handler
  (lines 56 to 58) catches it and the method returns \<^verbatim>\<open>False\<close> without a data frame:
  that is \<open>Inl\<close>. \<open>Inr\<close> is the data frame with which the method returns \<^verbatim>\<open>True\<close>. Opening
  and decoding the file is not part of the model: the argument is the decoded list.
\<close>

fun parse_records :: "lib \<Rightarrow> raw_record list \<Rightarrow> error + tx list" where
  "parse_records L [] = Inr []"
| "parse_records L (r # rs) =
     (case parse_record L r of
        Inl e \<Rightarrow> Inl e
      | Inr t \<Rightarrow> (case parse_records L rs of Inl e \<Rightarrow> Inl e | Inr ts \<Rightarrow> Inr (t # ts)))"

definition load_and_parse_data :: "lib \<Rightarrow> raw_record list \<Rightarrow> error + tx list" where
  "load_and_parse_data L raw_data = parse_records L raw_data"

subsection \<open>Stage 2: \<^verbatim>\<open>engineer_features\<close>\<close>

text \<open>
  \<^verbatim>\<open>groupby('userAddress')\<close> and \<^verbatim>\<open>pivot_table(index='userAddress', ...)\<close> both drop the
  rows whose key is missing (\<^verbatim>\<open>dropna=True\<close> is the default of both) and sort the remaining
  keys. \<open>wallet_index\<close> is the resulting index, \<open>rows_of\<close> the group of one key.
\<close>

definition wallet_index :: "tx list \<Rightarrow> string list" where
  "wallet_index df = sort (remdups (List.map_filter userAddress df))"

definition rows_of :: "tx list \<Rightarrow> string \<Rightarrow> tx list" where
  "rows_of df w = filter (\<lambda>t. userAddress t = Some w) df"

text \<open>
  The pivot columns \<^verbatim>\<open>sum_<action>\<close> and \<^verbatim>\<open>count_<action>\<close> of one wallet. A wallet
  without a transaction of the action gets \<open>0\<close> (\<^verbatim>\<open>fill_value=0\<close>), and a column that
  no wallet has is read as \<open>0\<close> by \<^verbatim>\<open>wallets.get(column, 0)\<close>.
\<close>

definition sum_col :: "lib \<Rightarrow> string \<Rightarrow> tx list \<Rightarrow> real" where
  "sum_col L a rows =
     (case map amountUSD (filter (\<lambda>t. action t = a) rows) of
        [] \<Rightarrow> 0
      | v # vs \<Rightarrow> group_sum L (v # vs))"

definition count_col :: "string \<Rightarrow> tx list \<Rightarrow> nat" where
  "count_col a rows = length (filter (\<lambda>t. action t = a) rows)"

text \<open>The columns of \<^verbatim>\<open>wallet_features\<close> that the scorer reads.\<close>

record features =
  first_tx :: instant
  last_tx :: instant
  sum_deposit :: real
  sum_borrow :: real
  sum_repay :: real
  account_age_days :: int
  liquidation_count :: nat
  repayment_ratio :: fval
  ltv_proxy :: fval

text \<open>
  The feature row of one wallet from its rows (lines 62 to 85). \<^verbatim>\<open>min\<close> and \<^verbatim>\<open>max\<close>
  skip missing times. When every time of the wallet is missing, what follows
  (\<^verbatim>\<open>fillna(0)\<close> on a datetime column, then \<^verbatim>\<open>.dt.days\<close>) depends on the pandas release;
  the model stops there with \<open>None\<close>. \<^verbatim>\<open>.dt.days\<close> is the number of whole days.
\<close>

definition feature_row :: "lib \<Rightarrow> tx list \<Rightarrow> features option" where
  "feature_row L rows =
     (case List.map_filter timestamp rows of
        [] \<Rightarrow> None
      | t # ts \<Rightarrow>
          (let first = Min (set (t # ts));
               last = Max (set (t # ts));
               total_borrowed = sum_col L ''borrow'' rows;
               total_repaid = sum_col L ''repay'' rows;
               total_deposited = sum_col L ''deposit'' rows
           in Some \<lparr>first_tx = first, last_tx = last,
                    sum_deposit = total_deposited, sum_borrow = total_borrowed,
                    sum_repay = total_repaid,
                    account_age_days = (last - first) div (86400 * 10 ^ 9),
                    liquidation_count = count_col ''liquidationcall'' rows,
                    repayment_ratio = float_div L total_repaid (rnd L (total_borrowed + 1)),
                    ltv_proxy = float_div L total_borrowed (rnd L (total_deposited + 1))\<rparr>))"

text \<open>
  The whole table, one row per wallet of the index. A frame built from an empty list has
  no columns, so grouping it raises \<^verbatim>\<open>KeyError\<close>.
\<close>

definition engineer_features :: "lib \<Rightarrow> tx list \<Rightarrow> error + (string \<times> features) list" where
  "engineer_features L df =
     (case df of
        [] \<Rightarrow> Inl KeyError
      | _ \<Rightarrow>
          (case those (map (\<lambda>w. feature_row L (rows_of df w)) (wallet_index df)) of
             None \<Rightarrow> Inl MissingTimestamps
           | Some fs \<Rightarrow> Inr (zip (wallet_index df) fs)))"

subsection \<open>Stage 3: \<^verbatim>\<open>calculate_scores\<close>\<close>

text \<open>
  \<^verbatim>\<open>Series.clip(upper=u)\<close> on a possibly non-finite value, keeping the finite results:
  plus infinity is clipped to \<open>u\<close>; minus infinity and not-a-number stay as they are and
  make the score non-finite (\<open>None\<close>).
\<close>

definition clip_upper :: "real \<Rightarrow> fval \<Rightarrow> real option" where
  "clip_upper u v =
     (case v of Fin x \<Rightarrow> Some (min x u) | PosInf \<Rightarrow> Some u | NegInf \<Rightarrow> None | NaN \<Rightarrow> None)"

definition fval_sub :: "lib \<Rightarrow> fval \<Rightarrow> real \<Rightarrow> fval" where
  "fval_sub L v c = (case v of Fin x \<Rightarrow> Fin (rnd L (x - c)) | _ \<Rightarrow> v)"

text \<open>
  The raw score of one row (lines 91 to 96), each operation rounded where the source
  computes it. \<^verbatim>\<open>np.log1p\<close> gives minus infinity at \<open>-1\<close> and not-a-number below.
  \<open>None\<close> is a non-finite score.
\<close>

definition raw_score :: "lib \<Rightarrow> features \<Rightarrow> real option" where
  "raw_score L f =
     do {
       let score = 500;
       let score = rnd L (score + rnd L (of_int (account_age_days f) * rnd L (1 / 10)));
       lg \<leftarrow> (let v = rnd L (sum_deposit f + sum_borrow f)
              in if - 1 < v then Some (log1p L v) else None);
       let score = rnd L (score + rnd L (lg * 5));
       rr \<leftarrow> clip_upper 1 (fval_sub L (repayment_ratio f) 1);
       let score = rnd L (score + rnd L (rr * 100));
       let score = rnd L (score - of_nat (liquidation_count f) * 250);
       lt \<leftarrow> clip_upper 2 (ltv_proxy f);
       Some (rnd L (score - rnd L (lt * 150)))
     }"

text \<open>
  \<^verbatim>\<open>MinMaxScaler(feature_range=(0, 1000)).fit_transform\<close> on one column, as scikit-learn
  computes it. Fitting sets
  \<^verbatim>\<open>data_range = data_max - data_min\<close>,
  \<^verbatim>\<open>scale_ = (feature_range[1] - feature_range[0]) / _handle_zeros_in_scale(data_range)\<close>
  and \<^verbatim>\<open>min_ = feature_range[0] - data_min * scale_\<close>; transforming runs
  \<^verbatim>\<open>X *= scale_\<close> and then \<^verbatim>\<open>X += min_\<close>. A range below ten machine epsilons
  counts as constant and is replaced by \<open>1\<close>. The scaler does not clip (\<^verbatim>\<open>clip=False\<close>).
\<close>

definition handle_zeros_in_scale :: "real \<Rightarrow> real" where
  "handle_zeros_in_scale s = (if s < 10 * 2 powi (- 52) then 1 else s)"

definition fit_transform :: "lib \<Rightarrow> real list \<Rightarrow> real list" where
  "fit_transform L X =
     (let data_min = Min (set X);
          data_max = Max (set X);
          data_range = rnd L (data_max - data_min);
          scale = rnd L (1000 / handle_zeros_in_scale data_range);
          min' = rnd L (0 - rnd L (data_min * scale))
      in map (\<lambda>x. rnd L (rnd L (x * scale) + min')) X)"

text \<open>\<^verbatim>\<open>.astype(int)\<close>: the cast of a float to an integer drops the fraction.\<close>

definition astype_int :: "real \<Rightarrow> int" where
  "astype_int x = (if 0 \<le> x then \<lfloor>x\<rfloor> else \<lceil>x\<rceil>)"

text \<open>
  The score table (lines 91 to 100). The scaler rejects an empty column and an infinite
  entry with \<^verbatim>\<open>ValueError\<close>; the cast of not-a-number to an integer is undefined in
  numpy. The model stops in these cases.
\<close>

definition calculate_scores :: "lib \<Rightarrow> (string \<times> features) list \<Rightarrow> error + (string \<times> int) list" where
  "calculate_scores L wallet_features =
     (case wallet_features of
        [] \<Rightarrow> Inl EmptyPopulation
      | _ \<Rightarrow>
          (case those (map (\<lambda>(w, f). raw_score L f) wallet_features) of
             None \<Rightarrow> Inl NonFiniteScore
           | Some score \<Rightarrow>
               Inr (zip (map fst wallet_features) (map astype_int (fit_transform L score)))))"

text \<open>
  \<^verbatim>\<open>run\<close> without the result sink: the stages in sequence. A failure of the first stage
  is reported (the method returns \<^verbatim>\<open>False\<close> and \<^verbatim>\<open>run\<close> does nothing more); one of a later
  stage is an exception that nothing catches.
\<close>

definition run :: "lib \<Rightarrow> raw_record list \<Rightarrow> error + (string \<times> int) list" where
  "run L raw_data =
     (case load_and_parse_data L raw_data of
        Inl e \<Rightarrow> Inl e
      | Inr df \<Rightarrow>
          (case engineer_features L df of
             Inl e \<Rightarrow> Inl e
           | Inr wallets \<Rightarrow> calculate_scores L wallets))"

subsection \<open>Concrete libraries\<close>

text \<open>
  A fully specified library, to evaluate the stages on concrete batches. Its decimal
  constructor reads the plain numerals (an optional sign, digits, an optional point and
  more digits) and raises on every other string, as \<^verbatim>\<open>Decimal('abc')\<close> does; exponent
  notation, padding and the special values, which the real constructor also accepts, are
  not covered and occur in no evaluation below. Its time conversion covers the integral
  Unix seconds inside the range of a \<^verbatim>\<open>Timestamp\<close> and raises on everything else (the real
  one also converts fractional seconds; no evaluation below reads one). The sum of a
  group is the exact sum rounded once.
\<close>

definition digit_of :: "char \<Rightarrow> int option" where
  "digit_of c =
     (if CHR ''0'' \<le> c \<and> c \<le> CHR ''9'' then Some (of_char c - of_char (CHR ''0'')) else None)"

fun int_of_digits :: "int \<Rightarrow> string \<Rightarrow> int option" where
  "int_of_digits acc [] = Some acc"
| "int_of_digits acc (c # cs) =
     (case digit_of c of None \<Rightarrow> None | Some d \<Rightarrow> int_of_digits (10 * acc + d) cs)"

definition unsigned_plain :: "string \<Rightarrow> real option" where
  "unsigned_plain body =
     (let ip = takeWhile (\<lambda>c. c \<noteq> CHR ''.'') body;
          fp = drop 1 (dropWhile (\<lambda>c. c \<noteq> CHR ''.'') body)
      in if ip = [] \<and> fp = [] then None
         else (case (int_of_digits 0 ip, int_of_digits 0 fp) of
                 (Some i, Some f) \<Rightarrow> Some (of_int i + of_int f / 10 ^ length fp)
               | _ \<Rightarrow> None))"

definition decimal_plain :: "string \<Rightarrow> real option" where
  "decimal_plain s =
     (case s of
        [] \<Rightarrow> None
      | c # cs \<Rightarrow>
          if c = CHR ''-'' then map_option uminus (unsigned_plain cs)
          else if c = CHR ''+'' then unsigned_plain cs
          else unsigned_plain s)"

definition to_datetime_seconds :: "json \<Rightarrow> instant option option" where
  "to_datetime_seconds v =
     (case v of
        JNum x \<Rightarrow>
          (if x = of_int \<lfloor>x\<rfloor> \<and> \<bar>\<lfloor>x\<rfloor> * 10 ^ 9\<bar> \<le> 2 ^ 63 - 1
           then Some (Some (\<lfloor>x\<rfloor> * 10 ^ 9)) else None)
      | _ \<Rightarrow> None)"

text \<open>
  The logarithm is a table with the two values that the evaluations read:
  \<^verbatim>\<open>log1p(0.0)\<close> is \<open>0\<close>, and \<^verbatim>\<open>log1p(1000.0)\<close> is the argument \<open>v\<close> of the table (it
  answers with \<open>v\<close> for every argument other than \<open>0\<close>). The C library returns the double
  \<^verbatim>\<open>0x1.ba2909ce4f864p+2 = 6.90875477931522\<close> for \<^verbatim>\<open>log1p(1000.0)\<close>; its neighbours
  among the doubles are one unit in the last place, \<open>2\<^sup>-\<^sup>5\<^sup>0\<close>, away.
\<close>

definition log1p_table :: "real \<Rightarrow> real \<Rightarrow> real" where
  "log1p_table v x = (if x = 0 then 0 else v)"

definition log1p_1000 :: real where
  "log1p_1000 = 7778566362429540 / 2 ^ 50"

definition binary64 :: lib where
  "binary64 =
     \<lparr>decimal_of_str = decimal_plain, decimal_of_seq = (\<lambda>xs. None),
      to_datetime = to_datetime_seconds, rnd = fl64, log1p = log1p_table log1p_1000,
      group_sum = (\<lambda>vs. fl64 (sum_list vs))\<rparr>"

text \<open>The machine library with \<^verbatim>\<open>log1p(1000.0)\<close> one unit in the last place lower or higher.\<close>

definition binary64_below :: lib where
  "binary64_below = binary64\<lparr>log1p := log1p_table (log1p_1000 - 1 / 2 ^ 50)\<rparr>"

definition binary64_above :: lib where
  "binary64_above = binary64\<lparr>log1p := log1p_table (log1p_1000 + 1 / 2 ^ 50)\<rparr>"


subsection \<open>The rescaling as the specification words it\<close>


subsection \<open>Sample batches\<close>

text \<open>One record of the input file: wallet, Unix time, action, amount and unit price.\<close>

definition record_of :: "string \<Rightarrow> int \<Rightarrow> string \<Rightarrow> string \<Rightarrow> string \<Rightarrow> raw_record" where
  "record_of w t a amount price =
     \<lparr>userWallet = Some w,
      members = [(''timestamp'', JNum (of_int t)), (''action'', JStr a),
                 (''actionData'', JObj [(''amount'', JStr amount),
                                       (''assetPriceUSD'', JStr price)])]\<rparr>"

text \<open>
  The two wallets of the specification's end-to-end example: A deposits 1000 dollars at
  time 0 and repays 500 dollars ten days later; B borrows 1000 dollars at time 0 and is
  liquidated one day later.
\<close>

definition example_batch :: "raw_record list" where
  "example_batch =
     [record_of ''0xA'' 0 ''deposit'' ''1000'' ''1'',
      record_of ''0xA'' 864000 ''repay'' ''500'' ''1'',
      record_of ''0xB'' 0 ''borrow'' ''1000'' ''1'',
      record_of ''0xB'' 86400 ''liquidationcall'' ''1000'' ''1'']"

text \<open>
  Wallets that only redeem or are liquidated, all at the same time: A redeems once, B is
  liquidated three times, C once.
\<close>

definition two_wallets :: "raw_record list" where
  "two_wallets =
     [record_of ''0xA'' 0 ''redeemunderlying'' ''100'' ''1'',
      record_of ''0xB'' 0 ''liquidationcall'' ''100'' ''1'',
      record_of ''0xB'' 0 ''liquidationcall'' ''100'' ''1'',
      record_of ''0xB'' 0 ''liquidationcall'' ''100'' ''1'']"


text \<open>A record with an amount that is not a number, and one whose action is a number.\<close>

definition bad_amount_record :: raw_record where
  "bad_amount_record = record_of ''0xA'' 0 ''deposit'' ''abc'' ''1''"

definition bad_action_record :: raw_record where
  "bad_action_record =
     \<lparr>userWallet = Some ''0xA'',
      members = [(''timestamp'', JNum 0), (''action'', JNum 5)]\<rparr>"

text \<open>A record whose \<^verbatim>\<open>actionData\<close> is \<^verbatim>\<open>null\<close>.\<close>

definition null_action_data_record :: raw_record where
  "null_action_data_record =
     \<lparr>userWallet = Some ''0xB'',
      members = [(''timestamp'', JNum 0), (''action'', JStr ''borrow''),
                 (''actionData'', JNull)]\<rparr>"


definition anonymous_record :: raw_record where
  "anonymous_record =
     \<lparr>userWallet = None,
      members = [(''timestamp'', JNum 0), (''action'', JStr ''deposit''),
                 (''actionData'', JObj [(''amount'', JStr ''7''),
                                       (''assetPriceUSD'', JStr ''1'')])]\<rparr>"

text \<open>
  The transactions that the first record of \<open>two_wallets\<close> and the anonymous record parse
  to, and the feature row of a wallet whose only transaction is the former.
\<close>

definition redeem_tx :: tx where
  "redeem_tx =
     \<lparr>userAddress = Some ''0xA'', timestamp = Some 0, action = ''redeemunderlying'',
      amountUSD = 100\<rparr>"

definition anonymous_tx :: tx where
  "anonymous_tx =
     \<lparr>userAddress = None, timestamp = Some 0, action = ''deposit'', amountUSD = 7\<rparr>"

definition idle_features :: features where
  "idle_features =
     \<lparr>first_tx = 0, last_tx = 0, sum_deposit = 0, sum_borrow = 0, sum_repay = 0,
      account_age_days = 0, liquidation_count = 0,
      repayment_ratio = Fin 0, ltv_proxy = Fin 0\<rparr>"


subsection \<open>Notions used in the statements\<close>

text \<open>
  The records on which no step outside the inner \<^verbatim>\<open>try\<close> raises: \<^verbatim>\<open>actionData\<close> is an
  object or absent, the time converts, and \<^verbatim>\<open>action\<close> is a string or absent.
\<close>

definition well_formed :: "lib \<Rightarrow> raw_record \<Rightarrow> bool" where
  "well_formed L r \<longleftrightarrow>
     action_data_of r \<noteq> None \<and>
     py_to_datetime L (dict_get (members r) ''timestamp'') \<noteq> None \<and>
     action_of r \<noteq> None"

text \<open>The two members that the inner \<^verbatim>\<open>try\<close> reads (\<^verbatim>\<open>None\<close> when absent).\<close>

definition amount_field :: "raw_record \<Rightarrow> json" where
  "amount_field r = dict_get (case action_data_of r of None \<Rightarrow> [] | Some d \<Rightarrow> d) ''amount''"

definition price_field :: "raw_record \<Rightarrow> json" where
  "price_field r =
     dict_get (case action_data_of r of None \<Rightarrow> [] | Some d \<Rightarrow> d) ''assetPriceUSD''"

text \<open>
  A rounding is sound when it is odd, leaves its own results alone and sends only zero to
  zero. The identity is sound, and so is \<open>fl64\<close>.
\<close>

definition sound_rounding :: "(real \<Rightarrow> real) \<Rightarrow> bool" where
  "sound_rounding r \<longleftrightarrow>
     (\<forall>x. r (- x) = - r x) \<and> (\<forall>x. r (r x) = r x) \<and> (\<forall>x. r x = 0 \<longrightarrow> x = 0)"

text \<open>The pipeline up to the raw scores, and up to the two ratio columns.\<close>

definition score_column :: "lib \<Rightarrow> raw_record list \<Rightarrow> error + (string \<times> real option) list" where
  "score_column L raw_data =
     (case load_and_parse_data L raw_data of
        Inl e \<Rightarrow> Inl e
      | Inr df \<Rightarrow>
          (case engineer_features L df of
             Inl e \<Rightarrow> Inl e
           | Inr wallets \<Rightarrow> Inr (map (\<lambda>(w, f). (w, raw_score L f)) wallets)))"


section \<open>Properties\<close>

subsection \<open>The record parser\<close>

lemma parse_record_Inr_iff:
  "(\<exists>t. parse_record L r = Inr t) \<longleftrightarrow> well_formed L r"
  by (auto simp: parse_record_def well_formed_def Let_def split: option.splits)

lemma parse_record_Inl_iff:
  "(\<exists>e. parse_record L r = Inl e) \<longleftrightarrow> \<not> well_formed L r"
  by (auto simp: parse_record_def well_formed_def Let_def split: option.splits)

lemma parse_record_amountUSD:
  "parse_record L r = Inr t \<Longrightarrow> amountUSD t = amount_usd L (amount_field r) (price_field r)"
  by (auto simp: parse_record_def amount_field_def price_field_def Let_def split: option.splits)

lemma parse_record_userAddress:
  "parse_record L r = Inr t \<Longrightarrow> userAddress t = userWallet r"
  by (auto simp: parse_record_def Let_def split: option.splits)

lemma parse_records_length:
  "parse_records L rs = Inr ts \<Longrightarrow> length ts = length rs"
  by (induction rs arbitrary: ts) (auto split: sum.splits)

lemma parse_records_nth:
  "parse_records L rs = Inr ts \<Longrightarrow> i < length rs \<Longrightarrow> parse_record L (rs ! i) = Inr (ts ! i)"
proof (induction rs arbitrary: ts i)
  case Nil
  then show ?case by simp
next
  case (Cons r rs)
  then show ?case by (cases i) (auto split: sum.splits)
qed

lemma parse_records_Inr_iff:
  "(\<exists>ts. parse_records L rs = Inr ts) \<longleftrightarrow> (\<forall>r\<in>set rs. well_formed L r)"
proof (induction rs)
  case Nil
  show ?case by simp
next
  case (Cons r rs)
  show ?case
  proof (cases "parse_record L r")
    case (Inl e)
    then have "\<not> well_formed L r" using parse_record_Inl_iff by blast
    with Inl show ?thesis by simp
  next
    case (Inr t)
    then have "well_formed L r" using parse_record_Inr_iff by blast
    with Inr Cons show ?thesis by (auto split: sum.splits)
  qed
qed

lemma parse_records_failure:
  "r \<in> set rs \<Longrightarrow> \<not> well_formed L r \<Longrightarrow> \<exists>e. parse_records L rs = Inl e"
  using parse_records_Inr_iff [of L rs] by (cases "parse_records L rs") auto

text \<open>
  Claim C2, as amended. The inner \<^verbatim>\<open>try\<close> covers the amount and the price only. On a
  well-formed record the parser returns a transaction, and when the extraction of the
  amount in dollars raises (a missing price, text that is no number, a price object
  without its key) the transaction carries \<open>amountUSD = 0\<close>. A record that is not
  well-formed (an \<^verbatim>\<open>action\<close> that is no string, a time that does not convert, an
  \<^verbatim>\<open>actionData\<close> that is no object) raises outside the inner \<^verbatim>\<open>try\<close>: it yields no
  transaction, and a batch that contains it is abandoned as a whole (the method catches
  the exception and returns \<^verbatim>\<open>False\<close>).
\<close>

theorem malformed_values:
  "(well_formed L r \<longrightarrow>
      (\<exists>t. parse_record L r = Inr t \<and>
           (usd_value L (amount_field r) (price_field r) = None \<longrightarrow> amountUSD t = 0)))
   \<and> (\<not> well_formed L r \<longrightarrow> (\<exists>e. parse_record L r = Inl e))
   \<and> (r \<in> set raw_data \<and> \<not> well_formed L r \<longrightarrow>
        (\<exists>e. load_and_parse_data L raw_data = Inl e))"
proof (intro conjI impI)
  assume "well_formed L r"
  then obtain t where t: "parse_record L r = Inr t"
    using parse_record_Inr_iff by blast
  then have "usd_value L (amount_field r) (price_field r) = None \<longrightarrow> amountUSD t = 0"
    by (simp add: parse_record_amountUSD amount_usd_def)
  with t show "\<exists>t. parse_record L r = Inr t \<and>
      (usd_value L (amount_field r) (price_field r) = None \<longrightarrow> amountUSD t = 0)"
    by simp
next
  assume "\<not> well_formed L r"
  then show "\<exists>e. parse_record L r = Inl e" using parse_record_Inl_iff by blast
next
  assume "r \<in> set raw_data \<and> \<not> well_formed L r"
  then show "\<exists>e. load_and_parse_data L raw_data = Inl e"
    by (auto simp: load_and_parse_data_def dest: parse_records_failure)
qed

lemma bad_amount_facts:
  "well_formed binary64 bad_amount_record"
  "usd_value binary64 (amount_field bad_amount_record) (price_field bad_amount_record) = None"
  by code_simp+

lemma bad_action_facts:
  "\<not> well_formed binary64 bad_action_record"
  by code_simp

text \<open>
  Both cases at concrete records: a deposit with the amount \<^verbatim>\<open>'abc'\<close> is parsed with
  \<open>amountUSD = 0\<close>; together with a record whose action is the number 5 the batch fails.
\<close>

theorem malformed_values_witness:
  "(\<exists>t. parse_record binary64 bad_amount_record = Inr t \<and> amountUSD t = 0)
   \<and> (\<exists>e. load_and_parse_data binary64 [bad_amount_record, bad_action_record] = Inl e)"
  using malformed_values [of binary64 bad_amount_record "[]"]
    malformed_values [of binary64 bad_action_record "[bad_amount_record, bad_action_record]"]
    bad_amount_facts bad_action_facts
  by auto

text \<open>
  Claim C2 as stated fails: the record whose action is the number 5 yields no transaction,
  and loading the batch that consists of it reports failure.
\<close>

theorem malformed_action_counterexample:
  "load_and_parse_data binary64 [bad_action_record] = Inl AttributeError"
  by code_simp

text \<open>
  Claim C9, as amended. When loading succeeds, the store holds exactly one transaction per
  raw record, the \<open>i\<close>-th being the parse of the \<open>i\<close>-th record; and loading succeeds
  exactly when every record of the batch is well-formed. Otherwise no store is produced.
\<close>

theorem store_cardinality:
  "(load_and_parse_data L raw_data = Inr df \<longrightarrow>
      length df = length raw_data \<and>
      (\<forall>i<length raw_data. parse_record L (raw_data ! i) = Inr (df ! i)))
   \<and> ((\<exists>df. load_and_parse_data L raw_data = Inr df) \<longleftrightarrow>
        (\<forall>r\<in>set raw_data. well_formed L r))"
  by (auto simp: load_and_parse_data_def parse_records_length parse_records_nth
      parse_records_Inr_iff)

lemma example_batch_well_formed: "\<forall>r\<in>set example_batch. well_formed binary64 r"
  by code_simp

text \<open>The four records of the example batch give a store of four transactions.\<close>

theorem store_cardinality_witness:
  "\<exists>df. load_and_parse_data binary64 example_batch = Inr df \<and> length df = 4"
proof -
  have len: "length example_batch = 4" by (simp add: example_batch_def)
  from store_cardinality [of binary64 example_batch] example_batch_well_formed
  obtain df where df: "load_and_parse_data binary64 example_batch = Inr df" by blast
  with store_cardinality [of binary64 example_batch df] len show ?thesis by simp
qed

text \<open>
  Claim C9 as stated fails: a batch of two records, the second with \<^verbatim>\<open>actionData\<close> set
  to \<^verbatim>\<open>null\<close>, produces no store.
\<close>

theorem store_cardinality_counterexample:
  "length [record_of ''0xA'' 0 ''deposit'' ''1000'' ''1'', null_action_data_record] = 2
   \<and> load_and_parse_data binary64
       [record_of ''0xA'' 0 ''deposit'' ''1000'' ''1'', null_action_data_record]
     = Inl AttributeError"
  by code_simp





subsection \<open>Rounding to binary64\<close>

text \<open>
  \<open>expo\<close> is the binary exponent, so the significand that \<open>fl64\<close> rounds lies between
  \<open>2\<^sup>5\<^sup>2\<close> and \<open>2\<^sup>5\<^sup>3\<close>. The rounding is odd, fixes the numbers it produces, maps only
  zero to zero, and moves a number by at most half a unit in the last place.
\<close>

lemma two_powi_pos [simp]: "0 < (2::real) powi k"
  by simp

lemma two_powi_mono: "j \<le> k \<Longrightarrow> (2::real) powi j \<le> 2 powi k"
  by (rule power_int_increasing) simp_all

lemma two_powi_add: "(2::real) powi (j + k) = 2 powi j * 2 powi k"
  by (rule power_int_add) simp

lemma two_powi_nat: "0 \<le> k \<Longrightarrow> (2::real) powi k = 2 ^ nat k"
  by (simp add: power_int_def)

lemma floor_bitlen_bounds:
  fixes b :: real
  assumes "1 \<le> b"
  shows "2 powi (bitlen \<lfloor>b\<rfloor> - 1) \<le> b" and "b < 2 powi (bitlen \<lfloor>b\<rfloor>)"
proof -
  let ?n = "\<lfloor>b\<rfloor>"
  have n: "0 < ?n" using assms by linarith
  from bitlen_bounds [OF n] have lo: "2 ^ nat (bitlen ?n - 1) \<le> ?n" and hi: "?n < 2 ^ nat (bitlen ?n)"
    by auto
  have k: "1 \<le> bitlen ?n" using n by (simp add: bitlen_alt_def)
  have "(2::real) powi (bitlen ?n - 1) = of_int (2 ^ nat (bitlen ?n - 1))"
    using k by (simp add: two_powi_nat)
  also have "\<dots> \<le> of_int ?n" using lo by (simp only: of_int_le_iff)
  also have "\<dots> \<le> b" by simp
  finally show "2 powi (bitlen ?n - 1) \<le> b" .
  have "?n + 1 \<le> 2 ^ nat (bitlen ?n)" using hi by simp
  then have "of_int (?n + 1) \<le> (of_int (2 ^ nat (bitlen ?n)) :: real)" by (simp only: of_int_le_iff)
  moreover have "b < of_int (?n + 1)" by linarith
  moreover have "(2::real) powi (bitlen ?n) = of_int (2 ^ nat (bitlen ?n))"
    using k by (simp add: two_powi_nat)
  ultimately show "b < 2 powi (bitlen ?n)" by linarith
qed

lemma expo_bounds:
  assumes "x \<noteq> 0"
  shows "2 powi (expo x) \<le> \<bar>x\<bar>" and "\<bar>x\<bar> < 2 powi (expo x + 1)"
proof -
  let ?a = "\<bar>x\<bar>"
  have a: "0 < ?a" using assms by simp
  have "2 powi (expo x) \<le> ?a \<and> ?a < 2 powi (expo x + 1)"
  proof (cases "1 \<le> ?a")
    case True
    then have e: "expo x = bitlen \<lfloor>?a\<rfloor> - 1" by (simp add: expo_def)
    from floor_bitlen_bounds [OF True] show ?thesis by (simp add: e)
  next
    case False
    let ?b = "1 / ?a"
    let ?k = "bitlen \<lfloor>?b\<rfloor> - 1"
    have b: "1 \<le> ?b" using False a by simp
    from floor_bitlen_bounds [OF b] have lo: "2 powi ?k \<le> ?b" and hi: "?b < 2 powi (?k + 1)"
      by simp_all
    have le: "?a * 2 powi ?k \<le> 1"
      using lo a by (simp add: field_simps)
    have gt: "1 < ?a * 2 powi (?k + 1)"
      using hi a by (simp add: field_simps)
    have m1: "2 powi (- ?k) * 2 powi ?k = (1::real)"
      using two_powi_add [of "- ?k" ?k] by simp
    have m2: "2 powi (- ?k - 1) * 2 powi (?k + 1) = (1::real)"
      using two_powi_add [of "- ?k - 1" "?k + 1"] by simp
    show ?thesis
    proof (cases "?a * 2 powi ?k = 1")
      case True
      then have e: "expo x = - ?k" using False by (simp add: expo_def Let_def)
      have eq: "?a = 2 powi (- ?k)"
        using True m1 by (metis mult_cancel_right power_int_eq_0_iff zero_neq_numeral)
      have "(2::real) powi (- ?k) < 2 powi (- ?k + 1)"
        by (rule power_int_strict_increasing) simp_all
      with eq show ?thesis by (simp add: e)
    next
      case ne: False
      then have e: "expo x = - ?k - 1" using False by (simp add: expo_def Let_def)
      have "?a * 2 powi ?k < 2 powi (- ?k) * 2 powi ?k" using le ne m1 by simp
      then have up: "?a < 2 powi (- ?k)" by (simp only: mult_less_cancel_right_pos two_powi_pos)
      have "2 powi (- ?k - 1) * 2 powi (?k + 1) < ?a * 2 powi (?k + 1)" using gt m2 by simp
      then have "2 powi (- ?k - 1) < ?a" by (simp only: mult_less_cancel_right_pos two_powi_pos)
      with up show ?thesis by (simp add: e)
    qed
  qed
  then show "2 powi (expo x) \<le> \<bar>x\<bar>" and "\<bar>x\<bar> < 2 powi (expo x + 1)" by simp_all
qed


lemma round_half_even_bounds:
  "\<lfloor>y\<rfloor> \<le> round_half_even y" "round_half_even y \<le> \<lfloor>y\<rfloor> + 1"
  by (simp_all add: round_half_even_def Let_def)


lemma significand_bounds:
  assumes "x \<noteq> 0"
  shows "2 ^ 52 \<le> round_half_even (\<bar>x\<bar> * 2 powi (52 - expo x))"
    and "round_half_even (\<bar>x\<bar> * 2 powi (52 - expo x)) \<le> 2 ^ 53"
proof -
  let ?s = "\<bar>x\<bar> * 2 powi (52 - expo x)"
  have p52: "2 powi (expo x) * 2 powi (52 - expo x) = (2::real) ^ 52"
    using two_powi_add [of "expo x" "52 - expo x"] by simp
  have p53: "2 powi (expo x + 1) * 2 powi (52 - expo x) = (2::real) ^ 53"
    using two_powi_add [of "expo x + 1" "52 - expo x"] by simp
  from expo_bounds [OF assms] have "2 powi (expo x) * 2 powi (52 - expo x) \<le> ?s"
    and "?s < 2 powi (expo x + 1) * 2 powi (52 - expo x)"
    by (simp_all only: mult_le_cancel_right_pos mult_less_cancel_right_pos two_powi_pos)
  then have lo: "2 ^ 52 \<le> ?s" and hi: "?s < 2 ^ 53" by (simp_all only: p52 p53)
  have "(2::int) ^ 52 \<le> \<lfloor>?s\<rfloor>" using lo by (simp add: le_floor_iff)
  with round_half_even_bounds(1) [of ?s] show "2 ^ 52 \<le> round_half_even ?s" by linarith
  have "\<lfloor>?s\<rfloor> < (2::int) ^ 53" using hi by (simp add: floor_less_iff)
  with round_half_even_bounds(2) [of ?s] show "round_half_even ?s \<le> 2 ^ 53" by linarith
qed

lemma fl64_eq:
  "x \<noteq> 0 \<Longrightarrow> fl64 x = sgn x * of_int (round_half_even (\<bar>x\<bar> * 2 powi (52 - expo x))) * 2 powi (expo x - 52)"
  by (simp add: fl64_def Let_def)

lemma expo_minus [simp]: "expo (- x) = expo x"
  by (simp add: expo_def)




lemma round_half_even_error: "\<bar>of_int (round_half_even y) - y\<bar> \<le> 1 / 2"
proof -
  define f where "f = \<lfloor>y\<rfloor>"
  define d where "d = y - of_int f"
  have d: "0 \<le> d" "d < 1" unfolding d_def f_def by linarith+
  have r: "round_half_even y = (if d < 1 / 2 then f else if 1 / 2 < d then f + 1 else if even f then f else f + 1)"
    by (simp add: round_half_even_def Let_def f_def d_def)
  have y: "y = of_int f + d" by (simp add: d_def)
  show ?thesis
    unfolding r using d by (subst y) (auto simp: abs_if)
qed

lemma fl64_error:
  assumes "x \<noteq> 0"
  shows "\<bar>fl64 x - x\<bar> \<le> 2 powi (expo x - 53)"
proof -
  let ?e = "expo x"
  let ?s = "\<bar>x\<bar> * 2 powi (52 - ?e)"
  let ?m = "round_half_even ?s"
  have one: "2 powi (52 - ?e) * 2 powi (?e - 52) = (1::real)"
    using two_powi_add [of "52 - ?e" "?e - 52"] by simp
  have x: "x = sgn x * (?s * 2 powi (?e - 52))"
    using one by (simp add: mult.assoc sgn_mult_abs)
  have "fl64 x - x = sgn x * ((of_int ?m - ?s) * 2 powi (?e - 52))"
    using x by (simp add: fl64_eq [OF assms] algebra_simps)
  then have "\<bar>fl64 x - x\<bar> = \<bar>of_int ?m - ?s\<bar> * 2 powi (?e - 52)"
    using assms by (simp add: abs_mult abs_sgn_eq)
  also have "\<dots> \<le> 1 / 2 * 2 powi (?e - 52)"
    by (intro mult_right_mono round_half_even_error) simp
  also have "\<dots> = 2 powi (?e - 53)"
    using two_powi_add [of "- 1" "?e - 52"] by simp
  finally show ?thesis .
qed

lemma expo_less:
  assumes "x \<noteq> 0" and "\<bar>x\<bar> < 2 powi N"
  shows "expo x < N"
proof (rule ccontr)
  assume "\<not> expo x < N"
  then have "(2::real) powi N \<le> 2 powi (expo x)" by (intro two_powi_mono) simp
  with expo_bounds(1) [OF assms(1)] assms(2) show False by linarith
qed

lemma fl64_error_bound:
  assumes "\<bar>x\<bar> < 2 powi N"
  shows "\<bar>fl64 x - x\<bar> \<le> 2 powi (N - 54)"
proof (cases "x = 0")
  case True
  then show ?thesis by (simp add: fl64_def)
next
  case False
  from expo_less [OF False assms] have "expo x - 53 \<le> N - 54" by simp
  then have "(2::real) powi (expo x - 53) \<le> 2 powi (N - 54)" by (rule two_powi_mono)
  with fl64_error [OF False] show ?thesis by linarith
qed

lemma fl64_abs_bound:
  assumes "\<bar>x\<bar> < 2 powi N"
  shows "\<bar>fl64 x\<bar> \<le> 2 powi N"
proof -
  have "(2::real) powi (N - 54) \<le> 2 powi N" by (rule two_powi_mono) simp
  have "\<bar>fl64 x\<bar> \<le> \<bar>x\<bar> + \<bar>fl64 x - x\<bar>" by linarith
  show ?thesis
  proof (cases "x = 0")
    case True
    then show ?thesis by (simp add: fl64_def)
  next
    case False
    let ?m = "round_half_even (\<bar>x\<bar> * 2 powi (52 - expo x))"
    have "0 < ?m"
    proof -
      have "(0::int) < 2 ^ 52" by simp
      with significand_bounds(1) [OF False] show ?thesis by linarith
    qed
    then have "\<bar>fl64 x\<bar> = of_int ?m * 2 powi (expo x - 52)"
      using False by (simp add: fl64_eq abs_mult abs_sgn_eq)
    also have "\<dots> \<le> 2 ^ 53 * 2 powi (expo x - 52)"
    proof (intro mult_right_mono)
      have "of_int ?m \<le> (of_int (2 ^ 53) :: real)"
        using significand_bounds(2) [OF False] by (simp only: of_int_le_iff)
      then show "of_int ?m \<le> (2::real) ^ 53" by simp
    qed simp
    also have "\<dots> = 2 powi (expo x + 1)"
      using two_powi_add [of 53 "expo x - 52"] by (simp add: add.commute)
    also have "\<dots> \<le> 2 powi N"
      using expo_less [OF False assms] by (intro two_powi_mono) simp
    finally show ?thesis .
  qed
qed


lemma sound_rounding_id: "sound_rounding (\<lambda>x. x)"
  by (simp add: sound_rounding_def)





subsection \<open>The feature aggregator\<close>

lemma those_map_Some:
  "those (map g xs) = Some ys \<Longrightarrow> length ys = length xs \<and> (\<forall>i<length xs. g (xs ! i) = Some (ys ! i))"
proof (induction xs arbitrary: ys)
  case Nil
  then show ?case by simp
next
  case (Cons x xs)
  then obtain y ys' where g: "g x = Some y" and r: "those (map g xs) = Some ys'" and ys: "ys = y # ys'"
    by (auto split: option.splits)
  from Cons.IH [OF r] have "length ys' = length xs" and n: "\<forall>i<length xs. g (xs ! i) = Some (ys' ! i)"
    by auto
  moreover have "g ((x # xs) ! i) = Some ((y # ys') ! i)" if "i < length (x # xs)" for i
    using that g n by (cases i) auto
  ultimately show ?case using ys by auto
qed


lemma engineer_features_index:
  assumes "engineer_features L df = Inr wallets"
  shows "map fst wallets = wallet_index df"
proof -
  from assms obtain fs where fs: "those (map (\<lambda>w. feature_row L (rows_of df w)) (wallet_index df)) = Some fs"
    and w: "wallets = zip (wallet_index df) fs"
    by (auto simp: engineer_features_def split: list.splits option.splits)
  from those_map_Some [OF fs] have "length fs = length (wallet_index df)" by simp
  with w show ?thesis by simp
qed


lemma set_wallet_index:
  "set (wallet_index df) = {w. \<exists>t\<in>set df. userAddress t = Some w}"
by (force simp: wallet_index_def List.map_filter_def)

lemma distinct_wallet_index: "distinct (wallet_index df)"
  by (simp add: wallet_index_def)

lemma wallet_index_filter:
  "wallet_index (filter (\<lambda>t. userAddress t \<noteq> None) df) = wallet_index df"
proof -
  have "List.map_filter userAddress (filter (\<lambda>t. userAddress t \<noteq> None) df) = List.map_filter userAddress df"
    by (induction df) (auto split: option.splits)
  then show ?thesis by (simp add: wallet_index_def)
qed

lemma rows_of_filter:
  "rows_of (filter (\<lambda>t. userAddress t \<noteq> None) df) w = rows_of df w"
  by (induction df) (auto simp: rows_of_def)

lemma length_fit_transform: "length (fit_transform L X) = length X"
  by (simp add: fit_transform_def Let_def)

lemma calculate_scores_index:
  assumes "calculate_scores L wallets = Inr scores"
  shows "map fst scores = map fst wallets"
proof -
  from assms obtain score where s: "those (map (\<lambda>(w, f). raw_score L f) wallets) = Some score"
    and sc: "scores = zip (map fst wallets) (map astype_int (fit_transform L score))"
    by (auto simp: calculate_scores_def split: list.splits option.splits)
  from those_map_Some [OF s] have "length score = length wallets" by simp
  with sc show ?thesis by (simp add: length_fit_transform)
qed

lemma engineer_features_alt:
  "engineer_features L df =
     (if df = [] then Inl KeyError
      else (case those (map (\<lambda>w. feature_row L (rows_of df w)) (wallet_index df)) of
              None \<Rightarrow> Inl MissingTimestamps
            | Some fs \<Rightarrow> Inr (zip (wallet_index df) fs)))"
  by (cases df) (auto simp: engineer_features_def)

text \<open>
  Claim C10. A record without \<^verbatim>\<open>userWallet\<close> is parsed into a transaction whose wallet
  key is missing. The feature table has one row for each wallet address that is present
  in the store and no other row; removing the transactions without a wallet key from the
  store does not change the table (as long as one transaction carries a key); and the score
  table has the rows of the feature table. So the transactions without a wallet key are
  left out of the aggregation, and no feature row and no score is produced for them.
\<close>

theorem missing_wallets_excluded:
  "(userWallet r = None \<and> parse_record L r = Inr t \<longrightarrow> userAddress t = None)
   \<and> (engineer_features L df = Inr wallets \<longrightarrow>
        distinct (map fst wallets) \<and>
        set (map fst wallets) = {w. \<exists>t\<in>set df. userAddress t = Some w})
   \<and> ((\<exists>t\<in>set df. userAddress t \<noteq> None) \<longrightarrow>
        engineer_features L df = engineer_features L (filter (\<lambda>t. userAddress t \<noteq> None) df))
   \<and> (calculate_scores L wallets = Inr scores \<longrightarrow> map fst scores = map fst wallets)"
proof (intro conjI impI)
  assume "userWallet r = None \<and> parse_record L r = Inr t"
  then show "userAddress t = None"
    by (auto simp: parse_record_def Let_def split: option.splits)
next
  assume e: "engineer_features L df = Inr wallets"
  show "distinct (map fst wallets)"
    by (simp add: engineer_features_index [OF e] distinct_wallet_index)
  show "set (map fst wallets) = {w. \<exists>t\<in>set df. userAddress t = Some w}"
    by (simp only: engineer_features_index [OF e] set_wallet_index)
next
  assume "\<exists>t\<in>set df. userAddress t \<noteq> None"
  then have "filter (\<lambda>t. userAddress t \<noteq> None) df \<noteq> []" and "df \<noteq> []"
    by (auto simp: filter_empty_conv)
  then show "engineer_features L df = engineer_features L (filter (\<lambda>t. userAddress t \<noteq> None) df)"
    unfolding engineer_features_alt wallet_index_filter rows_of_filter by (simp only: if_False)
next
  assume "calculate_scores L wallets = Inr scores"
  then show "map fst scores = map fst wallets" by (rule calculate_scores_index)
qed

lemma anonymous_facts:
  "parse_record binary64 anonymous_record = Inr anonymous_tx"
  "userWallet anonymous_record = None"
  "engineer_features binary64 [redeem_tx, anonymous_tx] = Inr [(''0xA'', idle_features)]"
  "calculate_scores binary64 [(''0xA'', idle_features)] = Inr [(''0xA'', 0)]"
  by code_simp+

text \<open>
  At a store of two transactions, one of them without a wallet key: the table and the
  scores have the single row of wallet \<^verbatim>\<open>0xA\<close>.
\<close>

theorem missing_wallets_excluded_witness:
  "userAddress anonymous_tx = None
   \<and> set (map fst [(''0xA'', idle_features)]) = {w. \<exists>t\<in>set [redeem_tx, anonymous_tx]. userAddress t = Some w}
   \<and> engineer_features binary64 [redeem_tx, anonymous_tx]
       = engineer_features binary64 (filter (\<lambda>t. userAddress t \<noteq> None) [redeem_tx, anonymous_tx])
   \<and> map fst [(''0xA'', 0::int)] = map fst [(''0xA'', idle_features)]"
proof -
  have e: "\<exists>t\<in>set [redeem_tx, anonymous_tx]. userAddress t \<noteq> None"
    by (simp add: redeem_tx_def)
  from missing_wallets_excluded [of anonymous_record binary64 anonymous_tx
      "[redeem_tx, anonymous_tx]" "[(''0xA'', idle_features)]" "[(''0xA'', 0)]"]
    anonymous_facts e
  show ?thesis by blast
qed





subsection \<open>The scorer\<close>






text \<open>
  On the machine the same holds up to rounding. The raw score is
  \<open>fl64 (fl64 (s - 250 k) - t)\<close> for the number \<open>k\<close> of liquidations, with \<open>s\<close> and \<open>t\<close>
  computed from the other features; when the values involved are below \<open>2\<^sup>M\<close> in
  absolute value, the scores for \<open>k\<close> and \<open>k + 1\<close> differ by 250 with an error of at most
  \<open>3 * 2\<^sup>M\<^sup>-\<^sup>5\<^sup>3\<close>, which is below \<open>10\<^sup>-\<^sup>1\<^sup>2\<close> for \<open>M = 11\<close>.
\<close>

lemma binary64_penalty_error:
  assumes "\<bar>u\<bar> < 2 powi M" and "\<bar>u - 250\<bar> < 2 powi M" and "\<bar>t\<bar> < 2 powi M"
  shows "\<bar>(fl64 (fl64 u - t) - fl64 (fl64 (u - 250) - t)) - 250\<bar> \<le> 3 * 2 powi (M - 53)"
proof -
  let ?a = "fl64 u" and ?b = "fl64 (u - 250)"
  have two: "(2::real) powi (M + 1) = 2 * 2 powi M"
    using two_powi_add [of 1 M] by (simp add: add.commute)
  have half: "(2::real) powi (M - 53) = 2 * 2 powi (M - 54)"
    using two_powi_add [of 1 "M - 54"] by simp
  have ea: "\<bar>?a - u\<bar> \<le> 2 powi (M - 54)" using assms(1) by (rule fl64_error_bound)
  have eb: "\<bar>?b - (u - 250)\<bar> \<le> 2 powi (M - 54)" using assms(2) by (rule fl64_error_bound)
  have "\<bar>?a - t\<bar> < 2 powi (M + 1)"
    using fl64_abs_bound [OF assms(1)] assms(3) two by linarith
  then have er: "\<bar>fl64 (?a - t) - (?a - t)\<bar> \<le> 2 powi (M - 53)"
    using fl64_error_bound [of "?a - t" "M + 1"] by simp
  have "\<bar>?b - t\<bar> < 2 powi (M + 1)"
    using fl64_abs_bound [OF assms(2)] assms(3) two by linarith
  then have es: "\<bar>fl64 (?b - t) - (?b - t)\<bar> \<le> 2 powi (M - 53)"
    using fl64_error_bound [of "?b - t" "M + 1"] by simp
  from ea eb er es half show ?thesis by linarith
qed

lemma raw_score_penalty_form:
  assumes "rnd L = fl64" and "raw_score L f = Some r"
  shows "\<exists>s t. \<forall>k. raw_score L (f\<lparr>liquidation_count := k\<rparr>)
            = Some (fl64 (fl64 (s - of_nat k * 250) - t))"
  using assms
  by (auto simp: raw_score_def Let_def split: Option.bind_splits if_splits)






lemma exact_rescaling_range:
  fixes X :: "real list"
  assumes "x \<in> set X" and "10 * 2 powi (- 52) \<le> Max (set X) - Min (set X)"
  defines "y \<equiv> (x - Min (set X)) * (1000 / (Max (set X) - Min (set X)))"
  shows "0 \<le> astype_int y" and "astype_int y \<le> 1000"
    and "x = Max (set X) \<Longrightarrow> astype_int y = 1000"
    and "x = Min (set X) \<Longrightarrow> astype_int y = 0"
proof -
  let ?lo = "Min (set X)" and ?hi = "Max (set X)"
  have pos: "0 < ?hi - ?lo"
  proof -
    have "(0::real) < 10 * 2 powi (- 52)" by simp
    with assms(2) show ?thesis by linarith
  qed
  have lo: "?lo \<le> x" and hi: "x \<le> ?hi" using assms(1) by simp_all
  have y0: "0 \<le> y" unfolding y_def using lo pos by simp
  have "y \<le> (?hi - ?lo) * (1000 / (?hi - ?lo))"
    unfolding y_def using hi pos by (intro mult_right_mono) simp_all
  also have "\<dots> = 1000" using pos by (simp add: field_simps)
  finally have y1: "y \<le> 1000" .
  show "0 \<le> astype_int y" using y0 by (simp add: astype_int_def)
  show "astype_int y \<le> 1000" using y0 y1 by (simp add: astype_int_def floor_le_iff)
  show "astype_int y = 1000" if "x = ?hi"
  proof -
    have "y = 1000" unfolding y_def that using pos by (simp add: field_simps)
    then show ?thesis by (simp add: astype_int_def)
  qed
  show "astype_int y = 0" if "x = ?lo"
    unfolding y_def that by (simp add: astype_int_def)
qed




text \<open>
  On the machine the integer scores are where the rounding shows: the cast drops the
  fraction, so a rescaled value of \<open>999.9999999999999\<close> becomes \<open>999\<close>. The following
  evaluations run the whole pipeline in binary64. They go through the raw scores first.
\<close>

lemma run_via_score_column:
  "run L raw_data =
     (case score_column L raw_data of
        Inl e \<Rightarrow> Inl e
      | Inr col \<Rightarrow>
          (case col of
             [] \<Rightarrow> Inl EmptyPopulation
           | _ \<Rightarrow>
               (case those (map snd col) of
                  None \<Rightarrow> Inl NonFiniteScore
                | Some score \<Rightarrow> Inr (zip (map fst col) (map astype_int (fit_transform L score))))))"
proof -
  have a: "snd \<circ> (\<lambda>(w, f). (w, raw_score L f)) = (\<lambda>(w, f). raw_score L f)"
    by auto
  have b: "fst \<circ> (\<lambda>(w, f). (w, raw_score L f)) = fst"
    by auto
  show ?thesis
  proof (cases "load_and_parse_data L raw_data")
    case (Inl e)
    then show ?thesis by (simp add: run_def score_column_def)
  next
    case df: (Inr df)
    show ?thesis
    proof (cases "engineer_features L df")
      case (Inl e)
      with df show ?thesis by (simp add: run_def score_column_def)
    next
      case (Inr ws)
      with df show ?thesis
        by (cases ws) (auto simp: run_def score_column_def calculate_scores_def case_prod_unfold comp_def split: option.splits)
    qed
  qed
qed

lemma two_wallets_raw:
  "score_column binary64 two_wallets = Inr [(''0xA'', Some 400), (''0xB'', Some (- 350))]"
  by code_simp

lemma two_wallets_rescaled:
  "map astype_int (fit_transform binary64 [400, - 350]) = [999, 0]"
  by code_simp

text \<open>
  The code breaks claim C4. In the batch \<open>two_wallets\<close> wallet A has the raw score 400,
  the maximum, and wallet B the raw score \<open>-350\<close>. The scaler computes
  \<open>scale_ = 1000 / 750 = 1.3333333333333333\<close> and \<open>min_ = 466.66666666666663\<close>, so A is
  rescaled to \<open>533.3333333333333 + 466.66666666666663 = 999.9999999999999\<close>, and the cast
  gives A the credit score 999, not 1000.
\<close>

theorem top_wallet_scores_999:
  "score_column binary64 two_wallets = Inr [(''0xA'', Some 400), (''0xB'', Some (- 350))]
   \<and> run binary64 two_wallets = Inr [(''0xA'', 999), (''0xB'', 0)]"
  by (simp add: run_via_score_column two_wallets_raw two_wallets_rescaled)







lemma example_raw:
  "score_column binary64 example_batch
     = Inr [(''0xA'', Some (1397575538719853 / 2199023255552)),
            (''0xB'', Some (- (1014684095496575 / 8796093022208)))]"
  by code_simp

lemma example_raw_below:
  "score_column binary64_below example_batch
     = Inr [(''0xA'', Some (1397575538719853 / 2199023255552)),
            (''0xB'', Some (- (1014684095496575 / 8796093022208)))]"
  by code_simp

lemma example_raw_above:
  "score_column binary64_above example_batch
     = Inr [(''0xA'', Some (1397575538719853 / 2199023255552)),
            (''0xB'', Some (- (1014684095496575 / 8796093022208)))]"
  by code_simp

lemma example_rescaled:
  "map astype_int (fit_transform binary64
      [1397575538719853 / 2199023255552, - (1014684095496575 / 8796093022208)]) = [999, 0]"
  by code_simp

lemma fit_transform_neighbours:
  "fit_transform binary64_below X = fit_transform binary64 X"
  "fit_transform binary64_above X = fit_transform binary64 X"
  by (simp_all add: fit_transform_def binary64_below_def binary64_above_def)

text \<open>
  The code breaks claim C6. On the specification's own example wallet A has the raw
  score \<open>635.5437738965761\<close> and wallet B \<open>-115.35622610342386\<close>, so A's raw score exceeds
  B's and B gets 0; but A is rescaled to \<open>999.9999999999999\<close> and gets 999, not 1000.
  The outcome is the same when \<^verbatim>\<open>log1p(1000.0)\<close> is a neighbour of the tabulated double:
  the addition that follows absorbs the difference.
\<close>

theorem example_scores_999:
  "score_column binary64 example_batch
     = Inr [(''0xA'', Some (1397575538719853 / 2199023255552)),
            (''0xB'', Some (- (1014684095496575 / 8796093022208)))]
   \<and> run binary64 example_batch = Inr [(''0xA'', 999), (''0xB'', 0)]
   \<and> run binary64_below example_batch
       = Inr [(''0xA'', 999), (''0xB'', 0)]
   \<and> run binary64_above example_batch
       = Inr [(''0xA'', 999), (''0xB'', 0)]"
  by (simp add: run_via_score_column example_raw example_raw_below example_raw_above
      example_rescaled fit_transform_neighbours)

end
